theory Spec2Isabelle
  imports Main
begin

section \<open>The LightField spectrometer facade (spectrometer.py)\<close>

text \<open>
  The class \<open>Spectrometer\<close> of \<^verbatim>\<open>src/spectrometer.py\<close> is a facade over the
  LightField automation library. Each method is embedded as a function that takes the
  facade object \<open>self\<close> and returns the object after the call, the calls it made on the
  vendor's objects and the messages it printed (in order), and how it ended: by returning
  a value or by raising an exception.
\<close>

subsection \<open>Python values\<close>

text \<open>
  A Python \<open>float\<close> is an IEEE double. \<open>Finite m e\<close> is the double \<open>m * 2 ^ e\<close>, kept in
  lowest terms (\<open>m\<close> odd, or \<open>m = 0\<close> and \<open>e = 0\<close>); the sign of zero is not tracked.
\<close>

datatype pyfloat = Finite int int | PosInf | NegInf | NaN

text \<open>The numeric arguments of the setters: a Python \<open>int\<close> (unbounded) or a \<open>float\<close>.\<close>

datatype pynum = PInt int | PFloat pyfloat

text \<open>The values the facade hands to \<open>SetValue\<close>: flags, numbers and strings.\<close>

datatype pyval = PyBool bool | PyNum pynum | PyStr string

text \<open>
  The exceptions of class \<open>Exception\<close> that can reach the facade: Python's own, and the
  .NET exceptions of the vendor library (which Python.NET raises as Python exceptions).
\<close>

datatype exn =
    AttributeError string
  | TypeError string
  | OverflowError string
  | VendorException string

datatype 'a outcome = Returned 'a | Raised exn

subsection \<open>The built-in float(), on an int\<close>

text \<open>\<open>int.bit_length()\<close>: the number of binary digits of a natural number.\<close>

fun bit_length :: "nat \<Rightarrow> nat" where
  "bit_length n = (if n = 0 then 0 else Suc (bit_length (n div 2)))"

declare bit_length.simps [simp del]

text \<open>The quotient of \<open>a\<close> by \<open>2 ^ s\<close>, rounded to the nearest integer, a tie to the even one.\<close>

definition round_half_even :: "nat \<Rightarrow> nat \<Rightarrow> nat" where
  "round_half_even a s =
     (if s = 0 then a
      else let q = a div 2 ^ s; r = a mod 2 ^ s; h = 2 ^ (s - 1)
           in if h < r \<or> (r = h \<and> odd q) then q + 1 else q)"

text \<open>\<open>m * 2 ^ e\<close> in lowest terms.\<close>

function lowest_terms :: "int \<Rightarrow> int \<Rightarrow> pyfloat" where
  "lowest_terms m e =
     (if m = 0 then Finite 0 0
      else if even m then lowest_terms (m div 2) (e + 1)
      else Finite m e)"
  by pat_completeness auto
termination
  by (relation "measure (\<lambda>(m, e). nat \<bar>m\<bar>)") auto

declare lowest_terms.simps [simp del]

text \<open>
  \<open>float(n)\<close> for an int \<open>n\<close>: the double nearest to \<open>n\<close> (53 significant bits, ties to
  even), and \<open>OverflowError\<close> when that would be \<open>2 ^ 1024\<close> or more in magnitude.
\<close>

definition float_of_int :: "int \<Rightarrow> exn + pyfloat" where
  "float_of_int n =
     (let a = nat \<bar>n\<bar>;
          s = (if bit_length a \<le> 53 then 0 else bit_length a - 53);
          q = round_half_even a s
      in if 2 ^ 1024 \<le> q * 2 ^ s
         then Inl (OverflowError ''int too large to convert to float'')
         else Inr (lowest_terms (sgn n * int q) (int s)))"

text \<open>\<open>float(x)\<close> for a numeric argument: a float is returned as it is.\<close>

fun py_float :: "pynum \<Rightarrow> exn + pyfloat" where
  "py_float (PFloat d) = Inr d"
| "py_float (PInt n) = float_of_int n"

text \<open>The double \<open>d\<close> is the integer \<open>n\<close>.\<close>

fun float_is_int :: "pyfloat \<Rightarrow> int \<Rightarrow> bool" where
  "float_is_int (Finite m e) n = (0 \<le> e \<and> n = m * 2 ^ nat e)"
| "float_is_int _ n = False"

subsection \<open>The vendor's objects\<close>

text \<open>
  The setting keys the facade names (members of \<open>SpectrometerSettings\<close>,
  \<open>CameraSettings\<close> and \<open>ExperimentSettings\<close>), and any other key of the vendor.
\<close>

datatype setting =
    GratingCenterWavelength
  | Grating
  | ShutterTimingExposureTime
  | FileNameGenerationBaseFileName
  | FileNameGenerationAttachIncrement
  | FileNameGenerationAttachDate
  | FileNameGenerationAttachTime
  | ReadoutControlRegionsOfInterestSelection
  | OtherSetting string

text \<open>The vendor's \<open>RegionOfInterest\<close> value object.\<close>

record region =
  X :: int
  Y :: int
  Width :: int
  Height :: int
  XBinning :: int
  YBinning :: int

text \<open>
  Modelled from the spec: the vendor's experiment object (the type of
  \<open>Automation.LightFieldApplication.Experiment\<close>) is not part of the repository. The
  spec describes it as the settings context, with a set of settings that exist in it and a
  map from settings to their values (section 8, "a fake existing-settings set" and "the
  settings map"), the name of the loaded experiment, and the sensor's full region.
\<close>

record lf_experiment =
  existing :: "setting set"
  settings :: "setting \<rightharpoonup> pyval"
  Name :: string
  FullSensorRegion :: region

text \<open>Modelled from the spec: \<open>Exists\<close> is "the setting-existence query".\<close>

definition Exists :: "lf_experiment \<Rightarrow> setting \<Rightarrow> bool" where
  "Exists ex k = (k \<in> existing ex)"

text \<open>Modelled from the spec: \<open>SetValue\<close> and \<open>GetValue\<close> are "setting get/set by opaque key".\<close>

definition SetValue :: "lf_experiment \<Rightarrow> setting \<Rightarrow> pyval \<Rightarrow> lf_experiment" where
  "SetValue ex k v = ex\<lparr>settings := (settings ex)(k \<mapsto> v)\<rparr>"

definition GetValue :: "lf_experiment \<Rightarrow> setting \<Rightarrow> pyval option" where
  "GetValue ex k = settings ex k"

text \<open>The handle of a running automation session (\<open>Automation(interface, List[String]())\<close>).\<close>

datatype automation = AutomationHandle nat

text \<open>
  Modelled from the spec: the constructor \<open>RegionOfInterest(x, y, width, height,
  xBinning, yBinning)\<close> of the vendor makes "a value object {x, y, width, height,
  x-binning, y-binning}" from six integers. Python.NET finds no constructor to call when
  an argument is \<open>None\<close>, and raises \<open>TypeError\<close>.
\<close>

definition RegionOfInterest ::
  "int option \<Rightarrow> int option \<Rightarrow> int option \<Rightarrow> int option \<Rightarrow> int option \<Rightarrow> int option
     \<Rightarrow> exn + region" where
  "RegionOfInterest x y w h xb yb =
     (case (x, y, w, h, xb, yb) of
        (Some x', Some y', Some w', Some h', Some xb', Some yb') \<Rightarrow>
          Inr \<lparr>X = x', Y = y', Width = w', Height = h', XBinning = xb', YBinning = yb'\<rparr>
      | _ \<Rightarrow> Inl (TypeError ''No method matches given arguments''))"

text \<open>
  Modelled from the spec: \<open>System.IO.Path.GetFileName\<close> of .NET "strips any path
  component (basename only)": it returns the characters after the last directory or
  volume separator (backslash, slash or colon on Windows, where LightField runs), and
  the whole string when there is none.
\<close>

definition is_separator :: "char \<Rightarrow> bool" where
  "is_separator c = (c = CHR 0x5C \<or> c = CHR ''/'' \<or> c = CHR '':'')"

definition GetFileName :: "string \<Rightarrow> string" where
  "GetFileName path = rev (takeWhile (\<lambda>c. \<not> is_separator c) (rev path))"

text \<open>
  What the vendor does during a launch is not fixed by the repository: each call either
  raises or returns. \<open>Load\<close> changes the experiment object in place, and may have
  changed it when it raises.
\<close>

record vendor =
  Automation :: "bool \<Rightarrow> exn + automation"
  LightFieldApplication_Experiment :: "automation \<Rightarrow> exn + lf_experiment option"
  Load :: "lf_experiment \<Rightarrow> string \<Rightarrow> lf_experiment \<times> exn option"

subsection \<open>What a call does that the caller can observe\<close>

text \<open>
  The messages of the \<open>print\<close> statements, by the f-string that makes them and the
  values that fill it:
  \<^item> \<open>Set_to k v\<close>: \<^verbatim>\<open>f'{setting} set to {value}.'\<close>
  \<^item> \<open>Error_in_setting k v\<close>: \<^verbatim>\<open>f'Error in setting {setting} to value: {value}.'\<close>
  \<^item> \<open>Success_set_up n\<close>: \<^verbatim>\<open>f'Success, experiment {self.experiment_name} set up.'\<close>
  \<^item> \<open>Error_text e\<close>: \<^verbatim>\<open>print(err)\<close>
\<close>

datatype message =
    Set_to setting pyval
  | Error_in_setting setting pyval
  | Success_set_up "string option"
  | Error_text exn

text \<open>The method calls on the vendor's objects, and the prints, in the order they happen.\<close>

datatype event =
    Call_Automation bool
  | Call_Load string
  | Call_Exists setting
  | Call_SetValue setting pyval
  | Call_Acquire
  | Call_SaveAs "string option"
  | Call_SetCustomRegions region
  | Print message

subsection \<open>The facade\<close>

text \<open>
  The four attributes \<open>__init__\<close> gives a \<open>Spectrometer\<close>. The attribute
  \<open>experiment\<close> is the field \<open>experiment'\<close> here, since \<open>experiment\<close> is a reserved
  word of Isabelle. It holds the vendor's experiment object, or \<open>None\<close>.
\<close>

record spectrometer =
  auto :: "automation option"
  experiment' :: "lf_experiment option"
  experiment_name :: "string option"
  ROI :: "region option"

definition init :: spectrometer where
  "init = \<lparr>auto = None, experiment' = None, experiment_name = None, ROI = None\<rparr>"

text \<open>
  The result of a method call: the object after it, the events of the call, and its
  outcome. An exception keeps the mutations made before it, as in Python.
\<close>

type_synonym 'a run = "spectrometer \<times> event list \<times> 'a outcome"

definition state_of :: "'a run \<Rightarrow> spectrometer" where
  "state_of r = fst r"

definition events_of :: "'a run \<Rightarrow> event list" where
  "events_of r = fst (snd r)"

definition outcome_of :: "'a run \<Rightarrow> 'a outcome" where
  "outcome_of r = snd (snd r)"

text \<open>
  One statement after another: the second runs on the object the first left, unless the
  first raised.
\<close>

definition and_then :: "unit run \<Rightarrow> (spectrometer \<Rightarrow> 'a run) \<Rightarrow> 'a run" where
  "and_then r f =
     (case r of
        (s, es, Raised e) \<Rightarrow> (s, es, Raised e)
      | (s, es, Returned _) \<Rightarrow>
          (case f s of (s', es', out) \<Rightarrow> (s', es @ es', out)))"

text \<open>
  A parameter with a default value takes an optional argument: \<open>None\<close> is the omitted
  argument, which the default fills in.
\<close>

definition default :: "'a \<Rightarrow> 'a option \<Rightarrow> 'a" where
  "default d a = (case a of None \<Rightarrow> d | Some x \<Rightarrow> x)"

subsubsection \<open>set_value (lines 102 to 114)\<close>

text \<open>
  \<^verbatim>\<open>
  if self.experiment.Exists(setting):
      self.experiment.SetValue(setting, value)
      print(f'{setting} set to {value}.')
  else:
      print(f'Error in setting {setting} to value: {value}.')
  \<close>
  Before \<open>launch_experiment\<close> has set it, \<open>self.experiment\<close> is \<open>None\<close>, and the
  attribute \<open>Exists\<close> of \<open>None\<close> raises \<open>AttributeError\<close>.
\<close>

definition set_value :: "spectrometer \<Rightarrow> setting \<Rightarrow> pyval \<Rightarrow> unit run" where
  "set_value self setting val =
     (case experiment' self of
        None \<Rightarrow> (self, [], Raised (AttributeError ''Exists''))
      | Some ex \<Rightarrow>
          if Exists ex setting
          then (self\<lparr>experiment' := Some (SetValue ex setting val)\<rparr>,
                [Call_Exists setting, Call_SetValue setting val, Print (Set_to setting val)],
                Returned ())
          else (self,
                [Call_Exists setting, Print (Error_in_setting setting val)],
                Returned ()))"

subsubsection \<open>launch_experiment (lines 44 to 58)\<close>

text \<open>
  The body of the \<open>try\<close>:
  \<^verbatim>\<open>
  self.auto = Automation(interface, List[String]())
  self.experiment = self.auto.LightFieldApplication.Experiment
  if experiment is not None:
      self.experiment.Load(experiment)
      self.experiment_name = self.experiment.get_Name()
  print(f'Success, experiment {self.experiment_name} set up.')
  \<close>
  \<open>get_Name()\<close> reads the \<open>Name\<close> of the experiment object. \<open>Load\<close> on an experiment
  that is \<open>None\<close> raises \<open>AttributeError\<close>.
\<close>

definition launch_body :: "vendor \<Rightarrow> spectrometer \<Rightarrow> string option \<Rightarrow> bool \<Rightarrow> unit run" where
  "launch_body lf self experiment interface =
     (case Automation lf interface of
        Inl err \<Rightarrow> (self, [Call_Automation interface], Raised err)
      | Inr a \<Rightarrow>
          (let self = self\<lparr>auto := Some a\<rparr> in
           case LightFieldApplication_Experiment lf a of
             Inl err \<Rightarrow> (self, [Call_Automation interface], Raised err)
           | Inr x \<Rightarrow>
               (let self = self\<lparr>experiment' := x\<rparr> in
                case experiment of
                  None \<Rightarrow>
                    (self,
                     [Call_Automation interface, Print (Success_set_up (experiment_name self))],
                     Returned ())
                | Some name \<Rightarrow>
                    (case experiment' self of
                       None \<Rightarrow>
                         (self, [Call_Automation interface], Raised (AttributeError ''Load''))
                     | Some ex \<Rightarrow>
                         (case Load lf ex name of
                            (ex', Some err) \<Rightarrow>
                              (self\<lparr>experiment' := Some ex'\<rparr>,
                               [Call_Automation interface, Call_Load name],
                               Raised err)
                          | (ex', None) \<Rightarrow>
                              (let self = self\<lparr>experiment' := Some ex'\<rparr>;
                                   self = self\<lparr>experiment_name := Some (Name ex')\<rparr>
                               in (self,
                                   [Call_Automation interface, Call_Load name,
                                    Print (Success_set_up (experiment_name self))],
                                   Returned ())))))))"

text \<open>
  \<^verbatim>\<open>
  try: ...
  except Exception as err:
      print(err)
  \<close>
  The parameter \<open>interface\<close> defaults to \<open>True\<close>.
\<close>

definition launch_experiment ::
  "vendor \<Rightarrow> spectrometer \<Rightarrow> string option \<Rightarrow> bool option \<Rightarrow> unit run" where
  "launch_experiment lf self experiment interface =
     (case launch_body lf self experiment (default True interface) of
        (s, es, Raised err) \<Rightarrow> (s, es @ [Print (Error_text err)], Returned ())
      | (s, es, Returned u) \<Rightarrow> (s, es, Returned u))"

subsubsection \<open>The setters (lines 60 to 89, 116 to 149, 186 to 191)\<close>

definition set_center_wavelength :: "spectrometer \<Rightarrow> pynum \<Rightarrow> unit run" where
  "set_center_wavelength self center_wave_length =
     set_value self GratingCenterWavelength (PyNum center_wave_length)"

text \<open>
  \<^verbatim>\<open>
  if grating == 0:   self.set_value(SpectrometerSettings.Grating, '[Mirror,1200][0][0]')
  elif grating == 0: self.set_value(SpectrometerSettings.Grating, '[550nm,900][1][0]')
  elif grating == 2: self.set_value(SpectrometerSettings.Grating, '[750nm,300][2][0]')
  \<close>
  The second test repeats the first, as in the source. The parameter defaults to 2.
\<close>

definition set_grating :: "spectrometer \<Rightarrow> int option \<Rightarrow> unit run" where
  "set_grating self grating_arg =
     (let grating = default 2 grating_arg in
      if grating = 0 then set_value self Grating (PyStr ''[Mirror,1200][0][0]'')
      else if grating = 0 then set_value self Grating (PyStr ''[550nm,900][1][0]'')
      else if grating = 2 then set_value self Grating (PyStr ''[750nm,300][2][0]'')
      else (self, [], Returned ()))"

text \<open>
  \<^verbatim>\<open>self.set_value(CameraSettings.ShutterTimingExposureTime, float(time))\<close>:
  the argument \<open>float(time)\<close> is evaluated first, and can raise.
\<close>

definition set_exposure_time :: "spectrometer \<Rightarrow> pynum \<Rightarrow> unit run" where
  "set_exposure_time self time =
     (case py_float time of
        Inl err \<Rightarrow> (self, [], Raised err)
      | Inr t \<Rightarrow> set_value self ShutterTimingExposureTime (PyNum (PFloat t)))"

text \<open>
  Four calls of \<open>set_value\<close>, one after the other. The three flags default to \<open>False\<close>.
\<close>

definition set_saved_filename ::
  "spectrometer \<Rightarrow> string \<Rightarrow> bool option \<Rightarrow> bool option \<Rightarrow> bool option \<Rightarrow> unit run" where
  "set_saved_filename self filename increment add_date add_time =
     and_then (set_value self FileNameGenerationBaseFileName (PyStr (GetFileName filename)))
       (\<lambda>self.
     and_then (set_value self FileNameGenerationAttachIncrement
                 (PyBool (default False increment)))
       (\<lambda>self.
     and_then (set_value self FileNameGenerationAttachDate (PyBool (default False add_date)))
       (\<lambda>self.
     set_value self FileNameGenerationAttachTime (PyBool (default False add_time)))))"

text \<open>
  \<^verbatim>\<open>self.set_value(CameraSettings.ReadoutControlRegionsOfInterestSelection, float(mode))\<close>.
  The parameter defaults to \<open>4.0\<close>, the double \<open>1 * 2 ^ 2\<close>.
\<close>

definition set_sensor_mode :: "spectrometer \<Rightarrow> pynum option \<Rightarrow> unit run" where
  "set_sensor_mode self mode =
     (case py_float (default (PFloat (Finite 1 2)) mode) of
        Inl err \<Rightarrow> (self, [], Raised err)
      | Inr m \<Rightarrow> set_value self ReadoutControlRegionsOfInterestSelection (PyNum (PFloat m)))"

subsubsection \<open>get_full_sensor_size (lines 151 to 162)\<close>

definition get_full_sensor_size ::
  "spectrometer \<Rightarrow> (int \<times> int \<times> int \<times> int \<times> int \<times> int) run" where
  "get_full_sensor_size self =
     (case experiment' self of
        None \<Rightarrow> (self, [], Raised (AttributeError ''FullSensorRegion''))
      | Some ex \<Rightarrow>
          (let dimensions = FullSensorRegion ex
           in (self, [],
               Returned (X dimensions, Y dimensions, Width dimensions, Height dimensions,
                         XBinning dimensions, YBinning dimensions))))"

subsubsection \<open>set_custom_ROI (lines 164 to 184)\<close>

text \<open>
  The names an instance of \<open>Spectrometer\<close> has: the four attributes \<open>__init__\<close> sets and
  the methods of the class. Python's names are case-sensitive.
\<close>

definition attribute_names :: "string list" where
  "attribute_names =
     [''auto'', ''experiment'', ''experiment_name'', ''ROI'',
      ''launch_experiment'', ''set_center_wavelength'', ''set_grating'',
      ''get_spectrometer_info'', ''set_value'', ''set_exposure_time'',
      ''set_saved_filename'', ''get_full_sensor_size'', ''set_custom_ROI'',
      ''set_sensor_mode'', ''acquire'', ''save_experiment'', ''plot_spectrum'',
      ''disconnect'']"

text \<open>
  \<^verbatim>\<open>
  if xbinning is None: xbinning = width
  if ybinning is None: ybinning = height
  regions = RegionOfInterest(x, y, width, height, xbinning, ybinning)
  self.Experiment.SetCustomRegions(regions)
  return regions
  \<close>
  The source reads \<open>self.Experiment\<close>, with a capital E; reading a name the instance does
  not have raises \<open>AttributeError\<close>.
\<close>

definition set_custom_ROI ::
  "spectrometer \<Rightarrow> int option \<Rightarrow> int option \<Rightarrow> int option \<Rightarrow> int option
     \<Rightarrow> int option \<Rightarrow> int option \<Rightarrow> region run" where
  "set_custom_ROI self x y width height xbinning_arg ybinning_arg =
     (let xbinning = (case xbinning_arg of None \<Rightarrow> width | Some b \<Rightarrow> Some b);
          ybinning = (case ybinning_arg of None \<Rightarrow> height | Some b \<Rightarrow> Some b)
      in case RegionOfInterest x y width height xbinning ybinning of
           Inl err \<Rightarrow> (self, [], Raised err)
         | Inr regions \<Rightarrow>
             if ''Experiment'' \<in> set attribute_names
             then (self, [Call_SetCustomRegions regions], Returned regions)
             else (self, [], Raised (AttributeError ''Experiment'')))"

subsubsection \<open>acquire (lines 193 to 199)\<close>

text \<open>
  \<^verbatim>\<open>
  self.set_saved_filename(filename=filename)
  self.experiment.Acquire()
  \<close>
\<close>

definition acquire :: "spectrometer \<Rightarrow> string \<Rightarrow> unit run" where
  "acquire self filename =
     and_then (set_saved_filename self filename None None None)
       (\<lambda>self.
          case experiment' self of
            None \<Rightarrow> (self, [], Raised (AttributeError ''Acquire''))
          | Some ex \<Rightarrow> (self, [Call_Acquire], Returned ()))"

subsubsection \<open>save_experiment (lines 201 to 209)\<close>

text \<open>
  \<^verbatim>\<open>
  if name is not None:
      self.experiment_name = name
  self.experiment.SaveAs(self.experiment_name)
  \<close>
\<close>

definition save_experiment :: "spectrometer \<Rightarrow> string option \<Rightarrow> unit run" where
  "save_experiment self name =
     (let self = (case name of None \<Rightarrow> self | Some n \<Rightarrow> self\<lparr>experiment_name := Some n\<rparr>)
      in case experiment' self of
           None \<Rightarrow> (self, [], Raised (AttributeError ''SaveAs''))
         | Some ex \<Rightarrow> (self, [Call_SaveAs (experiment_name self)], Returned ()))"

subsection \<open>The domain setters, called one at a time\<close>

text \<open>
  A call of one of the domain setters: center wavelength, grating, exposure time, the
  file name with its three flags, and sensor mode.
\<close>

datatype setter_call =
    Set_center_wavelength pynum
  | Set_grating "int option"
  | Set_exposure_time pynum
  | Set_saved_filename string "bool option" "bool option" "bool option"
  | Set_sensor_mode "pynum option"

fun call_setter :: "spectrometer \<Rightarrow> setter_call \<Rightarrow> unit run" where
  "call_setter self (Set_center_wavelength w) = set_center_wavelength self w"
| "call_setter self (Set_grating g) = set_grating self g"
| "call_setter self (Set_exposure_time t) = set_exposure_time self t"
| "call_setter self (Set_saved_filename f i d t) = set_saved_filename self f i d t"
| "call_setter self (Set_sensor_mode m) = set_sensor_mode self m"

text \<open>Calls of \<open>set_value\<close> and nothing else, one after the other.\<close>

fun set_values :: "spectrometer \<Rightarrow> (setting \<times> pyval) list \<Rightarrow> unit run" where
  "set_values self [] = (self, [], Returned ())"
| "set_values self ((k, v) # kvs) = and_then (set_value self k v) (\<lambda>self. set_values self kvs)"

text \<open>
  A sequence of events in which every \<open>SetValue\<close> comes right after an \<open>Exists\<close> of
  the same key, a key of the set \<open>S\<close>, and right before the print of its success; and
  every other \<open>Exists\<close> is of a key outside \<open>S\<close> and is followed by the print of the
  error. No other event occurs.
\<close>

fun only_guarded_writes :: "setting set \<Rightarrow> event list \<Rightarrow> bool" where
  "only_guarded_writes S [] = True"
| "only_guarded_writes S (e # es) =
     (case e of
        Call_Exists k \<Rightarrow>
          (case es of
             Call_SetValue k' v # Print (Set_to k'' v') # es' \<Rightarrow>
               k \<in> S \<and> k' = k \<and> k'' = k \<and> v' = v \<and> only_guarded_writes S es'
           | Print (Error_in_setting k' v) # es' \<Rightarrow>
               k \<notin> S \<and> k' = k \<and> only_guarded_writes S es'
           | _ \<Rightarrow> False)
      | _ \<Rightarrow> False)"

subsection \<open>Objects for the examples\<close>

text \<open>
  An experiment in which the eight settings the facade names exist, none set yet, on a
  sensor of 1024 by 1024 pixels; and a facade that holds it.
\<close>

definition pixis_region :: region where
  "pixis_region =
     \<lparr>X = 0, Y = 0, Width = 1024, Height = 1024, XBinning = 1, YBinning = 1\<rparr>"

definition pixis :: lf_experiment where
  "pixis =
     \<lparr>existing =
        {GratingCenterWavelength, Grating, ShutterTimingExposureTime,
         FileNameGenerationBaseFileName, FileNameGenerationAttachIncrement,
         FileNameGenerationAttachDate, FileNameGenerationAttachTime,
         ReadoutControlRegionsOfInterestSelection},
      settings = Map.empty,
      Name = ''Pixis'',
      FullSensorRegion = pixis_region\<rparr>"

text \<open>
  A Windows path: drive \<open>C:\<close>, directory \<open>data\<close>, file \<open>run1.csv\<close>, with a
  backslash (\<open>CHR 0x5C\<close>) after the drive and after the directory.
\<close>

definition run1_path :: string where
  "run1_path = ''C:'' @ [CHR 0x5C] @ ''data'' @ [CHR 0x5C] @ ''run1.csv''"

definition launched :: spectrometer where
  "launched =
     \<lparr>auto = Some (AutomationHandle 0), experiment' = Some pixis,
      experiment_name = None, ROI = None\<rparr>"

text \<open>
  Three vendors: one whose runtime does not start, one that starts and fails to load
  any experiment, and one that loads the experiment asked for.
\<close>

definition vendor_down :: vendor where
  "vendor_down =
     \<lparr>Automation = (\<lambda>interface. Inl (VendorException ''LightField is not installed'')),
      LightFieldApplication_Experiment = (\<lambda>a. Inr None),
      Load = (\<lambda>ex name. (ex, None))\<rparr>"

definition vendor_without_presets :: vendor where
  "vendor_without_presets =
     \<lparr>Automation = (\<lambda>interface. Inr (AutomationHandle 0)),
      LightFieldApplication_Experiment = (\<lambda>a. Inr (Some pixis)),
      Load = (\<lambda>ex name. (ex, Some (VendorException ''no such experiment'')))\<rparr>"

definition vendor_working :: vendor where
  "vendor_working =
     \<lparr>Automation = (\<lambda>interface. Inr (AutomationHandle 0)),
      LightFieldApplication_Experiment = (\<lambda>a. Inr (Some pixis)),
      Load = (\<lambda>ex name. (ex\<lparr>Name := name\<rparr>, None))\<rparr>"

section \<open>Properties\<close>

subsection \<open>The three ways a guarded write ends\<close>

lemma set_value_no_experiment:
  "experiment' self = None \<Longrightarrow>
     set_value self k v = (self, [], Raised (AttributeError ''Exists''))"
  by (simp add: set_value_def)

lemma set_value_absent:
  "experiment' self = Some ex \<Longrightarrow> k \<notin> existing ex \<Longrightarrow>
     set_value self k v = (self, [Call_Exists k, Print (Error_in_setting k v)], Returned ())"
  by (simp add: set_value_def Exists_def)

lemma set_value_present:
  "experiment' self = Some ex \<Longrightarrow> k \<in> existing ex \<Longrightarrow>
     set_value self k v =
       (self\<lparr>experiment' := Some (SetValue ex k v)\<rparr>,
        [Call_Exists k, Call_SetValue k v, Print (Set_to k v)],
        Returned ())"
  by (simp add: set_value_def Exists_def)

lemma set_value_held:
  "experiment' self = Some ex \<Longrightarrow>
     set_value self k v =
       (self\<lparr>experiment' := Some (if k \<in> existing ex then SetValue ex k v else ex)\<rparr>,
        Call_Exists k #
          (if k \<in> existing ex then [Call_SetValue k v, Print (Set_to k v)]
           else [Print (Error_in_setting k v)]),
        Returned ())"
  by (cases self) (simp add: set_value_def Exists_def)

lemma existing_SetValue [simp]: "existing (SetValue ex k v) = existing ex"
  by (simp add: SetValue_def)

lemma GetValue_SetValue [simp]:
  "GetValue (SetValue ex k v) k' = (if k' = k then Some v else GetValue ex k')"
  by (simp add: SetValue_def GetValue_def)

lemma set_saved_filename_held:
  assumes "experiment' self = Some ex"
  shows "\<exists>ex'. set_saved_filename self filename increment add_date add_time =
     (self\<lparr>experiment' := Some ex'\<rparr>,
      Call_Exists FileNameGenerationBaseFileName #
        (if FileNameGenerationBaseFileName \<in> existing ex
         then [Call_SetValue FileNameGenerationBaseFileName (PyStr (GetFileName filename)),
               Print (Set_to FileNameGenerationBaseFileName (PyStr (GetFileName filename)))]
         else [Print (Error_in_setting FileNameGenerationBaseFileName (PyStr (GetFileName filename)))])
      @ Call_Exists FileNameGenerationAttachIncrement #
        (if FileNameGenerationAttachIncrement \<in> existing ex
         then [Call_SetValue FileNameGenerationAttachIncrement (PyBool (default False increment)),
               Print (Set_to FileNameGenerationAttachIncrement (PyBool (default False increment)))]
         else [Print (Error_in_setting FileNameGenerationAttachIncrement (PyBool (default False increment)))])
      @ Call_Exists FileNameGenerationAttachDate #
        (if FileNameGenerationAttachDate \<in> existing ex
         then [Call_SetValue FileNameGenerationAttachDate (PyBool (default False add_date)),
               Print (Set_to FileNameGenerationAttachDate (PyBool (default False add_date)))]
         else [Print (Error_in_setting FileNameGenerationAttachDate (PyBool (default False add_date)))])
      @ Call_Exists FileNameGenerationAttachTime #
        (if FileNameGenerationAttachTime \<in> existing ex
         then [Call_SetValue FileNameGenerationAttachTime (PyBool (default False add_time)),
               Print (Set_to FileNameGenerationAttachTime (PyBool (default False add_time)))]
         else [Print (Error_in_setting FileNameGenerationAttachTime (PyBool (default False add_time)))]),
      Returned ())
    \<and> existing ex' = existing ex \<and> Name ex' = Name ex \<and> FullSensorRegion ex' = FullSensorRegion ex
    \<and> GetValue ex' FileNameGenerationBaseFileName =
        (if FileNameGenerationBaseFileName \<in> existing ex then Some (PyStr (GetFileName filename))
         else GetValue ex FileNameGenerationBaseFileName)
    \<and> GetValue ex' FileNameGenerationAttachIncrement =
        (if FileNameGenerationAttachIncrement \<in> existing ex then Some (PyBool (default False increment))
         else GetValue ex FileNameGenerationAttachIncrement)
    \<and> GetValue ex' FileNameGenerationAttachDate =
        (if FileNameGenerationAttachDate \<in> existing ex then Some (PyBool (default False add_date))
         else GetValue ex FileNameGenerationAttachDate)
    \<and> GetValue ex' FileNameGenerationAttachTime =
        (if FileNameGenerationAttachTime \<in> existing ex then Some (PyBool (default False add_time))
         else GetValue ex FileNameGenerationAttachTime)
    \<and> (\<forall>k. k \<notin> {FileNameGenerationBaseFileName, FileNameGenerationAttachIncrement,
                  FileNameGenerationAttachDate, FileNameGenerationAttachTime} \<longrightarrow>
           GetValue ex' k = GetValue ex k)"
proof -
  define w where "w = (\<lambda>e k v. if k \<in> existing e then SetValue e k v else e)"
  define ex1 where "ex1 = w ex FileNameGenerationBaseFileName (PyStr (GetFileName filename))"
  define ex2 where "ex2 = w ex1 FileNameGenerationAttachIncrement (PyBool (default False increment))"
  define ex3 where "ex3 = w ex2 FileNameGenerationAttachDate (PyBool (default False add_date))"
  define ex4 where "ex4 = w ex3 FileNameGenerationAttachTime (PyBool (default False add_time))"
  have w_existing [simp]: "existing (w e k v) = existing e" for e k v
    by (simp add: w_def)
  have w_get: "GetValue (w e k v) k' = (if k' = k \<and> k \<in> existing e then Some v else GetValue e k')" for e k v k'
    by (simp add: w_def)
  have w_name [simp]: "Name (w e k v) = Name e" "FullSensorRegion (w e k v) = FullSensorRegion e" for e k v
    by (simp_all add: w_def SetValue_def)
  have step: "set_value (self\<lparr>experiment' := Some e\<rparr>) k v =
       (self\<lparr>experiment' := Some (w e k v)\<rparr>,
        Call_Exists k #
          (if k \<in> existing e then [Call_SetValue k v, Print (Set_to k v)]
           else [Print (Error_in_setting k v)]),
        Returned ())" for e k v
    using set_value_held [of "self\<lparr>experiment' := Some e\<rparr>" e k v] by (simp add: w_def)
  have self_eq: "self\<lparr>experiment' := Some ex\<rparr> = self"
    using assms by (cases self) simp
  have run: "set_saved_filename (self\<lparr>experiment' := Some ex\<rparr>) filename increment add_date add_time =
     (self\<lparr>experiment' := Some ex4\<rparr>,
      Call_Exists FileNameGenerationBaseFileName #
        (if FileNameGenerationBaseFileName \<in> existing ex
         then [Call_SetValue FileNameGenerationBaseFileName (PyStr (GetFileName filename)),
               Print (Set_to FileNameGenerationBaseFileName (PyStr (GetFileName filename)))]
         else [Print (Error_in_setting FileNameGenerationBaseFileName (PyStr (GetFileName filename)))])
      @ Call_Exists FileNameGenerationAttachIncrement #
        (if FileNameGenerationAttachIncrement \<in> existing ex
         then [Call_SetValue FileNameGenerationAttachIncrement (PyBool (default False increment)),
               Print (Set_to FileNameGenerationAttachIncrement (PyBool (default False increment)))]
         else [Print (Error_in_setting FileNameGenerationAttachIncrement (PyBool (default False increment)))])
      @ Call_Exists FileNameGenerationAttachDate #
        (if FileNameGenerationAttachDate \<in> existing ex
         then [Call_SetValue FileNameGenerationAttachDate (PyBool (default False add_date)),
               Print (Set_to FileNameGenerationAttachDate (PyBool (default False add_date)))]
         else [Print (Error_in_setting FileNameGenerationAttachDate (PyBool (default False add_date)))])
      @ Call_Exists FileNameGenerationAttachTime #
        (if FileNameGenerationAttachTime \<in> existing ex
         then [Call_SetValue FileNameGenerationAttachTime (PyBool (default False add_time)),
               Print (Set_to FileNameGenerationAttachTime (PyBool (default False add_time)))]
         else [Print (Error_in_setting FileNameGenerationAttachTime (PyBool (default False add_time)))]),
      Returned ())"
    unfolding set_saved_filename_def
    by (simp add: step and_then_def ex1_def ex2_def ex3_def ex4_def)
  note run' = run [unfolded self_eq]
  have frame: "existing ex4 = existing ex" "Name ex4 = Name ex" "FullSensorRegion ex4 = FullSensorRegion ex"
    by (simp_all add: ex1_def ex2_def ex3_def ex4_def)
  have vals: "GetValue ex4 FileNameGenerationBaseFileName =
        (if FileNameGenerationBaseFileName \<in> existing ex then Some (PyStr (GetFileName filename))
         else GetValue ex FileNameGenerationBaseFileName)"
    "GetValue ex4 FileNameGenerationAttachIncrement =
        (if FileNameGenerationAttachIncrement \<in> existing ex then Some (PyBool (default False increment))
         else GetValue ex FileNameGenerationAttachIncrement)"
    "GetValue ex4 FileNameGenerationAttachDate =
        (if FileNameGenerationAttachDate \<in> existing ex then Some (PyBool (default False add_date))
         else GetValue ex FileNameGenerationAttachDate)"
    "GetValue ex4 FileNameGenerationAttachTime =
        (if FileNameGenerationAttachTime \<in> existing ex then Some (PyBool (default False add_time))
         else GetValue ex FileNameGenerationAttachTime)"
    "\<forall>k. k \<notin> {FileNameGenerationBaseFileName, FileNameGenerationAttachIncrement,
                  FileNameGenerationAttachDate, FileNameGenerationAttachTime} \<longrightarrow>
           GetValue ex4 k = GetValue ex k"
    by (simp_all add: ex1_def ex2_def ex3_def ex4_def w_get)
  show ?thesis
    by (rule exI [of _ ex4]) (intro conjI run' frame vals)
qed

subsection \<open>The base name of a path\<close>

lemma GetFileName_splits:
  "\<exists>dir. path = dir @ GetFileName path \<and> (dir = [] \<or> is_separator (last dir))"
proof -
  let ?P = "\<lambda>c. \<not> is_separator c"
  let ?dir = "rev (dropWhile ?P (rev path))"
  have "?dir @ GetFileName path = rev (takeWhile ?P (rev path) @ dropWhile ?P (rev path))"
    by (simp only: GetFileName_def rev_append)
  also have "\<dots> = path"
    by simp
  finally have whole: "path = ?dir @ GetFileName path"
    by (rule sym)
  have "is_separator (last ?dir)" if "?dir \<noteq> []"
  proof -
    from that have ne: "dropWhile ?P (rev path) \<noteq> []" by simp
    then have "\<not> ?P (hd (dropWhile ?P (rev path)))" by (rule hd_dropWhile)
    with ne show ?thesis by (simp add: last_rev)
  qed
  with whole show ?thesis by blast
qed

lemma GetFileName_no_separator: "c \<in> set (GetFileName path) \<Longrightarrow> \<not> is_separator c"
  by (auto simp: GetFileName_def dest: set_takeWhileD)

lemma GetFileName_run1_path: "GetFileName run1_path = ''run1.csv''"
  by (simp add: GetFileName_def is_separator_def run1_path_def)

subsection \<open>Sequences of guarded writes\<close>

lemma and_then_unit: "and_then r (\<lambda>s. (s, [], Returned ())) = r"
proof -
  obtain s es out where r: "r = (s, es, out)" by (cases r)
  show ?thesis
  proof (cases out)
    case (Returned u)
    with r show ?thesis by (simp add: and_then_def)
  next
    case (Raised e)
    with r show ?thesis by (simp add: and_then_def)
  qed
qed

lemma call_setter_set_values:
  "(\<exists>kvs. call_setter self c = set_values self kvs)
   \<or> (\<exists>err. call_setter self c = (self, [], Raised err))"
proof (cases c)
  case (Set_center_wavelength w)
  then have "call_setter self c = set_values self [(GratingCenterWavelength, PyNum w)]"
    by (simp add: set_center_wavelength_def and_then_unit)
  then show ?thesis by blast
next
  case (Set_grating g)
  then have "call_setter self c = set_values self [(Grating, PyStr ''[Mirror,1200][0][0]'')]
    \<or> call_setter self c = set_values self [(Grating, PyStr ''[750nm,300][2][0]'')]
    \<or> call_setter self c = set_values self []"
    by (simp add: set_grating_def and_then_unit Let_def)
  then show ?thesis by blast
next
  case (Set_exposure_time t)
  show ?thesis
  proof (cases "py_float t")
    case (Inl err)
    with Set_exposure_time show ?thesis by (simp add: set_exposure_time_def)
  next
    case (Inr d)
    with Set_exposure_time
    have "call_setter self c = set_values self [(ShutterTimingExposureTime, PyNum (PFloat d))]"
      by (simp add: set_exposure_time_def and_then_unit)
    then show ?thesis by blast
  qed
next
  case (Set_saved_filename f i d t)
  then have "call_setter self c =
      set_values self
        [(FileNameGenerationBaseFileName, PyStr (GetFileName f)),
         (FileNameGenerationAttachIncrement, PyBool (default False i)),
         (FileNameGenerationAttachDate, PyBool (default False d)),
         (FileNameGenerationAttachTime, PyBool (default False t))]"
    by (simp add: set_saved_filename_def and_then_unit)
  then show ?thesis by blast
next
  case (Set_sensor_mode m)
  show ?thesis
  proof (cases "py_float (default (PFloat (Finite 1 2)) m)")
    case (Inl err)
    with Set_sensor_mode show ?thesis by (simp add: set_sensor_mode_def)
  next
    case (Inr d)
    with Set_sensor_mode
    have "call_setter self c =
        set_values self [(ReadoutControlRegionsOfInterestSelection, PyNum (PFloat d))]"
      by (simp add: set_sensor_mode_def and_then_unit)
    then show ?thesis by blast
  qed
qed

lemma set_values_guarded:
  "experiment' self = Some ex \<Longrightarrow>
     only_guarded_writes (existing ex) (events_of (set_values self kvs))
     \<and> (\<exists>ex'. experiment' (state_of (set_values self kvs)) = Some ex' \<and> existing ex' = existing ex)"
proof (induction kvs arbitrary: self ex)
  case Nil
  then show ?case by (simp add: events_of_def state_of_def)
next
  case (Cons kv kvs)
  obtain k v where kv: "kv = (k, v)" by (cases kv)
  let ?ex1 = "if k \<in> existing ex then SetValue ex k v else ex"
  let ?s1 = "self\<lparr>experiment' := Some ?ex1\<rparr>"
  have first: "set_value self k v =
       (?s1,
        Call_Exists k #
          (if k \<in> existing ex then [Call_SetValue k v, Print (Set_to k v)]
           else [Print (Error_in_setting k v)]),
        Returned ())"
    using Cons.prems by (rule set_value_held)
  have held1: "experiment' ?s1 = Some ?ex1" by simp
  have same: "existing ?ex1 = existing ex" by simp
  from Cons.IH [OF held1] same
  have rest: "only_guarded_writes (existing ex) (events_of (set_values ?s1 kvs))"
    and after: "\<exists>ex'. experiment' (state_of (set_values ?s1 kvs)) = Some ex' \<and> existing ex' = existing ex"
    by simp_all
  obtain s2 es2 out2 where run2: "set_values ?s1 kvs = (s2, es2, out2)"
    by (cases "set_values ?s1 kvs")
  from rest after run2 first kv show ?case
    by (simp add: and_then_def events_of_def state_of_def)
qed

lemma set_values_no_experiment:
  "experiment' self = None \<Longrightarrow> events_of (set_values self kvs) = []"
proof (cases kvs)
  case Nil
  then show ?thesis by (simp add: events_of_def)
next
  case (Cons kv kvs')
  assume "experiment' self = None"
  then have "set_value self (fst kv) (snd kv) = (self, [], Raised (AttributeError ''Exists''))"
    by (rule set_value_no_experiment)
  with Cons show ?thesis
    by (cases kv) (simp add: and_then_def events_of_def)
qed

subsection \<open>The float of an int\<close>

lemma bit_length_le: "n < 2 ^ k \<Longrightarrow> bit_length n \<le> k"
proof (induction k arbitrary: n)
  case 0
  then have "n = 0" by simp
  then show ?case by (simp add: bit_length.simps)
next
  case (Suc k)
  show ?case
  proof (cases "n = 0")
    case True
    then show ?thesis by (simp add: bit_length.simps)
  next
    case False
    from Suc.prems have "n div 2 < 2 ^ k" by simp
    then have "bit_length (n div 2) \<le> k" by (rule Suc.IH)
    with False show ?thesis by (subst bit_length.simps) simp
  qed
qed

lemma bit_length_power: "bit_length (2 ^ k) = Suc k"
proof (induction k)
  case 0
  show ?case by (simp add: bit_length.simps)
next
  case (Suc k)
  have "bit_length (2 ^ Suc k) = Suc (bit_length (2 ^ Suc k div 2))"
    by (subst bit_length.simps) simp
  with Suc show ?case by simp
qed

lemma lowest_terms_is_int: "0 \<le> e \<Longrightarrow> float_is_int (lowest_terms m e) (m * 2 ^ nat e)"
proof (induction m e rule: lowest_terms.induct)
  case (1 m e)
  show ?case
  proof (cases "m = 0")
    case True
    then show ?thesis by (subst lowest_terms.simps) simp
  next
    case nonzero: False
    show ?thesis
    proof (cases "even m")
      case True
      from "1.prems" have "0 \<le> e + 1" by simp
      with "1.IH" nonzero True
      have "float_is_int (lowest_terms (m div 2) (e + 1)) (m div 2 * 2 ^ nat (e + 1))"
        by simp
      moreover from "1.prems" have "nat (e + 1) = Suc (nat e)" by simp
      moreover from True have "m div 2 * 2 = m" by simp
      ultimately have "float_is_int (lowest_terms (m div 2) (e + 1)) (m * 2 ^ nat e)"
        by (simp add: mult.assoc [symmetric])
      with nonzero True show ?thesis by (subst lowest_terms.simps) simp
    next
      case False
      with nonzero "1.prems" show ?thesis by (subst lowest_terms.simps) simp
    qed
  qed
qed

lemma float_of_int_exact:
  assumes "\<bar>n\<bar> < 2 ^ 53"
  shows "\<exists>d. float_of_int n = Inr d \<and> float_is_int d n"
proof -
  from assms have small: "nat \<bar>n\<bar> < 2 ^ 53"
    by (simp add: nat_less_iff)
  then have bits: "bit_length (nat \<bar>n\<bar>) \<le> 53"
    by (rule bit_length_le)
  have "(2::nat) ^ 53 \<le> 2 ^ 1024"
    by (rule power_increasing) simp_all
  with small have fits: "\<not> (2::nat) ^ 1024 \<le> nat \<bar>n\<bar>"
    by linarith
  have same: "sgn n * int (nat \<bar>n\<bar>) = n"
    by (simp add: mult_sgn_abs)
  have "float_of_int n = Inr (lowest_terms n 0)"
    using bits fits same
    by (simp add: float_of_int_def round_half_even_def Let_def del: power_increasing_iff)
  moreover have "float_is_int (lowest_terms n 0) n"
    using lowest_terms_is_int [of 0 n] by simp
  ultimately show ?thesis by blast
qed

lemma float_of_int_overflow:
  "float_of_int (2 ^ 1024) = Inl (OverflowError ''int too large to convert to float'')"
proof -
  have a: "nat \<bar>(2::int) ^ 1024\<bar> = 2 ^ 1024"
    by (simp add: nat_power_eq)
  have bits: "bit_length (2 ^ 1024) = 1025"
    using bit_length_power [of 1024] by simp
  have q: "(2::nat) ^ 1024 div 2 ^ 972 = 2 ^ 52" "(2::nat) ^ 1024 mod 2 ^ 972 = 0"
    by (simp_all add: power_diff [symmetric] mod_eq_0_iff_dvd le_imp_power_dvd)
  have r: "round_half_even (2 ^ 1024) 972 = 2 ^ 52"
    unfolding round_half_even_def Let_def q by simp
  have whole: "(2::nat) ^ 52 * 2 ^ 972 = 2 ^ 1024"
    by (simp add: power_add [symmetric])
  show ?thesis
    unfolding float_of_int_def Let_def a bits
    using r whole by simp
qed

lemma float_of_int_rounds:
  "float_of_int (2 ^ 53 + 1) = Inr (Finite 1 53)"
proof -
  have a: "nat \<bar>(2::int) ^ 53 + 1\<bar> = 9007199254740993"
    by simp
  have bits: "bit_length 9007199254740993 = 54"
    by (simp add: bit_length.simps)
  have r: "round_half_even 9007199254740993 1 = 4503599627370496"
    by (simp add: round_half_even_def Let_def)
  have l: "lowest_terms 4503599627370496 1 = Finite 1 53"
    by (simp add: lowest_terms.simps)
  show ?thesis
    unfolding float_of_int_def Let_def a bits
    using r l by simp
qed

lemma float_of_int_7: "float_of_int 7 = Inr (Finite 7 0)"
  by (simp add: float_of_int_def Let_def bit_length.simps round_half_even_def
      lowest_terms.simps)

subsection \<open>The claims\<close>

text \<open>
  C1. The guarded write \<open>set_value\<close>, on a facade that holds an experiment context,
  asks the context whether the key exists. If it does not, the call prints the error
  message, writes nothing and leaves the whole facade, its context included, as it was.
  If it does, the call writes exactly the given value under that key (every other key
  keeps its value, and the set of existing keys is the same), and prints the success
  message. In both cases the call returns normally.
\<close>

theorem set_value_guarded:
  assumes "experiment' self = Some ex"
  shows "(k \<notin> existing ex \<longrightarrow>
           set_value self k v =
             (self, [Call_Exists k, Print (Error_in_setting k v)], Returned ()))
      \<and> (k \<in> existing ex \<longrightarrow>
           (\<exists>ex'. state_of (set_value self k v) = self\<lparr>experiment' := Some ex'\<rparr>
               \<and> GetValue ex' k = Some v
               \<and> (\<forall>k'. k' \<noteq> k \<longrightarrow> GetValue ex' k' = GetValue ex k')
               \<and> existing ex' = existing ex
               \<and> Name ex' = Name ex
               \<and> FullSensorRegion ex' = FullSensorRegion ex)
           \<and> events_of (set_value self k v) =
               [Call_Exists k, Call_SetValue k v, Print (Set_to k v)]
           \<and> outcome_of (set_value self k v) = Returned ())"
proof -
  have absent: "k \<notin> existing ex \<longrightarrow>
          set_value self k v =
            (self, [Call_Exists k, Print (Error_in_setting k v)], Returned ())"
    using assms by (simp add: set_value_def Exists_def)
  have "state_of (set_value self k v) = self\<lparr>experiment' := Some (SetValue ex k v)\<rparr>"
    if "k \<in> existing ex"
    using assms that by (simp add: set_value_def Exists_def state_of_def)
  moreover have "GetValue (SetValue ex k v) k = Some v"
    by (simp add: GetValue_def SetValue_def)
  moreover have "\<forall>k'. k' \<noteq> k \<longrightarrow> GetValue (SetValue ex k v) k' = GetValue ex k'"
    by (simp add: GetValue_def SetValue_def)
  moreover have "existing (SetValue ex k v) = existing ex"
    and "Name (SetValue ex k v) = Name ex"
    and "FullSensorRegion (SetValue ex k v) = FullSensorRegion ex"
    by (simp_all add: SetValue_def)
  moreover have "events_of (set_value self k v) =
      [Call_Exists k, Call_SetValue k v, Print (Set_to k v)]"
    and "outcome_of (set_value self k v) = Returned ()"
    if "k \<in> existing ex"
    using assms that by (simp_all add: set_value_def Exists_def events_of_def outcome_of_def)
  ultimately have "k \<in> existing ex \<longrightarrow>
      (\<exists>ex'. state_of (set_value self k v) = self\<lparr>experiment' := Some ex'\<rparr>
          \<and> GetValue ex' k = Some v
          \<and> (\<forall>k'. k' \<noteq> k \<longrightarrow> GetValue ex' k' = GetValue ex k')
          \<and> existing ex' = existing ex
          \<and> Name ex' = Name ex
          \<and> FullSensorRegion ex' = FullSensorRegion ex)
      \<and> events_of (set_value self k v) =
          [Call_Exists k, Call_SetValue k v, Print (Set_to k v)]
      \<and> outcome_of (set_value self k v) = Returned ()"
    by blast
  with absent show ?thesis by blast
qed

theorem set_value_guarded_witness:
  "experiment' launched = Some pixis
   \<and> OtherSetting ''Laser'' \<notin> existing pixis
   \<and> set_value launched (OtherSetting ''Laser'') (PyBool True) =
       (launched,
        [Call_Exists (OtherSetting ''Laser''),
         Print (Error_in_setting (OtherSetting ''Laser'') (PyBool True))],
        Returned ())
   \<and> Grating \<in> existing pixis
   \<and> (\<exists>ex'. state_of (set_value launched Grating (PyStr ''[Mirror,1200][0][0]'')) =
               launched\<lparr>experiment' := Some ex'\<rparr>
           \<and> GetValue ex' Grating = Some (PyStr ''[Mirror,1200][0][0]''))
   \<and> events_of (set_value launched Grating (PyStr ''[Mirror,1200][0][0]'')) =
       [Call_Exists Grating, Call_SetValue Grating (PyStr ''[Mirror,1200][0][0]''),
        Print (Set_to Grating (PyStr ''[Mirror,1200][0][0]''))]"
proof -
  have held: "experiment' launched = Some pixis"
    by (simp add: launched_def)
  have absent: "OtherSetting ''Laser'' \<notin> existing pixis"
    and present: "Grating \<in> existing pixis"
    by (simp_all add: pixis_def)
  from set_value_guarded [OF held, of "OtherSetting ''Laser''" "PyBool True"]
    set_value_guarded [OF held, of Grating "PyStr ''[Mirror,1200][0][0]''"]
    held absent present
  show ?thesis by blast
qed

text \<open>
  C3. \<open>set_grating\<close> hands code 0 to the guarded write with the mirror descriptor
  \<open>[Mirror,1200][0][0]\<close> and code 2 (also the default) with \<open>[750nm,300][2][0]\<close>; where
  the experiment has the grating setting, that descriptor is what the context then holds.
  For code 1, and for every code other than 0 and 2, the call makes no call on the
  vendor, prints nothing, changes nothing and returns normally.
\<close>

theorem set_grating_mapping:
  "set_grating self (Some 0) = set_value self Grating (PyStr ''[Mirror,1200][0][0]'')
   \<and> set_grating self (Some 2) = set_value self Grating (PyStr ''[750nm,300][2][0]'')
   \<and> set_grating self None = set_grating self (Some 2)
   \<and> (experiment' self = Some ex \<and> Grating \<in> existing ex \<longrightarrow>
        (\<exists>ex0 ex2.
           set_grating self (Some 0) =
             (self\<lparr>experiment' := Some ex0\<rparr>,
              [Call_Exists Grating, Call_SetValue Grating (PyStr ''[Mirror,1200][0][0]''),
               Print (Set_to Grating (PyStr ''[Mirror,1200][0][0]''))],
              Returned ())
           \<and> GetValue ex0 Grating = Some (PyStr ''[Mirror,1200][0][0]'')
           \<and> set_grating self (Some 2) =
             (self\<lparr>experiment' := Some ex2\<rparr>,
              [Call_Exists Grating, Call_SetValue Grating (PyStr ''[750nm,300][2][0]''),
               Print (Set_to Grating (PyStr ''[750nm,300][2][0]''))],
              Returned ())
           \<and> GetValue ex2 Grating = Some (PyStr ''[750nm,300][2][0]'')))
   \<and> set_grating self (Some 1) = (self, [], Returned ())
   \<and> (code \<noteq> 0 \<and> code \<noteq> 2 \<longrightarrow> set_grating self (Some code) = (self, [], Returned ()))"
proof -
  have codes: "set_grating self (Some 0) = set_value self Grating (PyStr ''[Mirror,1200][0][0]'')"
    "set_grating self (Some 2) = set_value self Grating (PyStr ''[750nm,300][2][0]'')"
    "set_grating self None = set_grating self (Some 2)"
    by (simp_all add: set_grating_def default_def)
  have noop: "set_grating self (Some c) = (self, [], Returned ())" if "c \<noteq> 0" "c \<noteq> 2" for c
    using that by (simp add: set_grating_def default_def)
  have stored: "GetValue (SetValue ex Grating d) Grating = Some d" for d
    by (simp add: GetValue_def SetValue_def)
  have written: "\<exists>ex0 ex2.
           set_grating self (Some 0) =
             (self\<lparr>experiment' := Some ex0\<rparr>,
              [Call_Exists Grating, Call_SetValue Grating (PyStr ''[Mirror,1200][0][0]''),
               Print (Set_to Grating (PyStr ''[Mirror,1200][0][0]''))],
              Returned ())
           \<and> GetValue ex0 Grating = Some (PyStr ''[Mirror,1200][0][0]'')
           \<and> set_grating self (Some 2) =
             (self\<lparr>experiment' := Some ex2\<rparr>,
              [Call_Exists Grating, Call_SetValue Grating (PyStr ''[750nm,300][2][0]''),
               Print (Set_to Grating (PyStr ''[750nm,300][2][0]''))],
              Returned ())
           \<and> GetValue ex2 Grating = Some (PyStr ''[750nm,300][2][0]'')"
    if "experiment' self = Some ex" "Grating \<in> existing ex"
    using codes(1,2) set_value_present [OF that] stored by metis
  from codes noop [of 1] noop [of code] written show ?thesis
    by simp
qed

theorem set_grating_mapping_witness:
  "experiment' launched = Some pixis \<and> Grating \<in> existing pixis
   \<and> (\<exists>ex0. set_grating launched (Some 0) =
               (launched\<lparr>experiment' := Some ex0\<rparr>,
                [Call_Exists Grating, Call_SetValue Grating (PyStr ''[Mirror,1200][0][0]''),
                 Print (Set_to Grating (PyStr ''[Mirror,1200][0][0]''))],
                Returned ())
            \<and> GetValue ex0 Grating = Some (PyStr ''[Mirror,1200][0][0]''))
   \<and> (7::int) \<noteq> 0 \<and> (7::int) \<noteq> 2
   \<and> set_grating launched (Some 7) = (launched, [], Returned ())
   \<and> set_grating launched (Some 1) = (launched, [], Returned ())"
proof -
  have held: "experiment' launched = Some pixis \<and> Grating \<in> existing pixis"
    by (simp add: launched_def pixis_def)
  have other: "(7::int) \<noteq> 0 \<and> (7::int) \<noteq> 2"
    by simp
  from set_grating_mapping [of launched pixis 7] held other show ?thesis
    by blast
qed

text \<open>
  C2. Every domain setter (center wavelength, grating, exposure time, saved file name
  with its flags, sensor mode) does nothing to the experiment but through \<open>set_value\<close>:
  a call of a setter is a sequence of calls of \<open>set_value\<close>, or ends in the exception of
  its \<open>float()\<close> before it has called anything. So, on a facade that holds an
  experiment, every \<open>SetValue\<close> a setter makes comes right after the \<open>Exists\<close> check
  of its key, which the experiment has, and is reported by the print that follows; every
  key the experiment does not have is reported and not written. On a facade without an
  experiment a setter makes no call on the vendor at all.
\<close>

theorem setters_write_through_set_value:
  "((\<exists>kvs. call_setter self c = set_values self kvs)
      \<or> (\<exists>err. call_setter self c = (self, [], Raised err)))
   \<and> (experiment' self = None \<longrightarrow> events_of (call_setter self c) = [])
   \<and> (\<forall>ex. experiment' self = Some ex \<longrightarrow>
          only_guarded_writes (existing ex) (events_of (call_setter self c)))"
proof -
  note shape = call_setter_set_values [of self c]
  have none: "events_of (call_setter self c) = []" if "experiment' self = None"
    using shape set_values_no_experiment [OF that] by (auto simp: events_of_def)
  have held: "only_guarded_writes (existing ex) (events_of (call_setter self c))"
    if "experiment' self = Some ex" for ex
    using shape set_values_guarded [OF that] by (auto simp: events_of_def)
  from shape none held show ?thesis by blast
qed

theorem setters_write_through_set_value_witness:
  "experiment' launched = Some pixis
   \<and> only_guarded_writes (existing pixis)
        (events_of (call_setter launched (Set_saved_filename ''run1.csv'' None None None)))
   \<and> experiment' init = None
   \<and> events_of (call_setter init (Set_grating (Some 0))) = []"
proof -
  have held: "experiment' launched = Some pixis" by (simp add: launched_def)
  have none: "experiment' init = None" by (simp add: init_def)
  from setters_write_through_set_value
         [of launched "Set_saved_filename ''run1.csv'' None None None"]
       setters_write_through_set_value [of init "Set_grating (Some 0)"]
       held none
  show ?thesis by blast
qed

text \<open>
  C5. \<open>set_saved_filename\<close>, on a facade that holds an experiment, keeps of the file
  name only what follows its last path separator, and makes four guarded writes in this
  order: the base name, then the increment, date and time flags with the values passed
  (\<open>False\<close> for each one omitted). Each write is decided by the existence of its own key
  alone: a key the experiment lacks is reported and skipped while the others are still
  written, so the four writes are not atomic. Nothing else in the experiment changes.
\<close>

theorem set_saved_filename_four_writes:
  assumes "experiment' self = Some ex"
  shows "\<exists>dir ex'.
      filename = dir @ GetFileName filename
    \<and> (dir = [] \<or> is_separator (last dir))
    \<and> (\<forall>c \<in> set (GetFileName filename). \<not> is_separator c)
    \<and> set_saved_filename self filename (Some i) (Some d) (Some t) =
     (self\<lparr>experiment' := Some ex'\<rparr>,
      Call_Exists FileNameGenerationBaseFileName #
        (if FileNameGenerationBaseFileName \<in> existing ex
         then [Call_SetValue FileNameGenerationBaseFileName (PyStr (GetFileName filename)),
               Print (Set_to FileNameGenerationBaseFileName (PyStr (GetFileName filename)))]
         else [Print (Error_in_setting FileNameGenerationBaseFileName
                        (PyStr (GetFileName filename)))])
      @ Call_Exists FileNameGenerationAttachIncrement #
        (if FileNameGenerationAttachIncrement \<in> existing ex
         then [Call_SetValue FileNameGenerationAttachIncrement (PyBool i),
               Print (Set_to FileNameGenerationAttachIncrement (PyBool i))]
         else [Print (Error_in_setting FileNameGenerationAttachIncrement (PyBool i))])
      @ Call_Exists FileNameGenerationAttachDate #
        (if FileNameGenerationAttachDate \<in> existing ex
         then [Call_SetValue FileNameGenerationAttachDate (PyBool d),
               Print (Set_to FileNameGenerationAttachDate (PyBool d))]
         else [Print (Error_in_setting FileNameGenerationAttachDate (PyBool d))])
      @ Call_Exists FileNameGenerationAttachTime #
        (if FileNameGenerationAttachTime \<in> existing ex
         then [Call_SetValue FileNameGenerationAttachTime (PyBool t),
               Print (Set_to FileNameGenerationAttachTime (PyBool t))]
         else [Print (Error_in_setting FileNameGenerationAttachTime (PyBool t))]),
      Returned ())
    \<and> existing ex' = existing ex
    \<and> GetValue ex' FileNameGenerationBaseFileName =
        (if FileNameGenerationBaseFileName \<in> existing ex
         then Some (PyStr (GetFileName filename))
         else GetValue ex FileNameGenerationBaseFileName)
    \<and> GetValue ex' FileNameGenerationAttachIncrement =
        (if FileNameGenerationAttachIncrement \<in> existing ex then Some (PyBool i)
         else GetValue ex FileNameGenerationAttachIncrement)
    \<and> GetValue ex' FileNameGenerationAttachDate =
        (if FileNameGenerationAttachDate \<in> existing ex then Some (PyBool d)
         else GetValue ex FileNameGenerationAttachDate)
    \<and> GetValue ex' FileNameGenerationAttachTime =
        (if FileNameGenerationAttachTime \<in> existing ex then Some (PyBool t)
         else GetValue ex FileNameGenerationAttachTime)
    \<and> (\<forall>k. k \<notin> {FileNameGenerationBaseFileName, FileNameGenerationAttachIncrement,
                  FileNameGenerationAttachDate, FileNameGenerationAttachTime} \<longrightarrow>
           GetValue ex' k = GetValue ex k)
    \<and> set_saved_filename self filename None None None =
        set_saved_filename self filename (Some False) (Some False) (Some False)"
proof -
  obtain dir where dir: "filename = dir @ GetFileName filename"
      "dir = [] \<or> is_separator (last dir)"
    using GetFileName_splits [of filename] by blast
  have clean: "\<forall>c \<in> set (GetFileName filename). \<not> is_separator c"
    using GetFileName_no_separator by blast
  have passed: "default False (Some b) = b" for b
    by (simp add: default_def)
  have omitted: "set_saved_filename self filename None None None =
        set_saved_filename self filename (Some False) (Some False) (Some False)"
    by (simp add: set_saved_filename_def default_def)
  from set_saved_filename_held [OF assms, of filename "Some i" "Some d" "Some t"]
  obtain ex' where writes: "set_saved_filename self filename (Some i) (Some d) (Some t) =
     (self\<lparr>experiment' := Some ex'\<rparr>,
      Call_Exists FileNameGenerationBaseFileName #
        (if FileNameGenerationBaseFileName \<in> existing ex
         then [Call_SetValue FileNameGenerationBaseFileName (PyStr (GetFileName filename)),
               Print (Set_to FileNameGenerationBaseFileName (PyStr (GetFileName filename)))]
         else [Print (Error_in_setting FileNameGenerationBaseFileName
                        (PyStr (GetFileName filename)))])
      @ Call_Exists FileNameGenerationAttachIncrement #
        (if FileNameGenerationAttachIncrement \<in> existing ex
         then [Call_SetValue FileNameGenerationAttachIncrement (PyBool i),
               Print (Set_to FileNameGenerationAttachIncrement (PyBool i))]
         else [Print (Error_in_setting FileNameGenerationAttachIncrement (PyBool i))])
      @ Call_Exists FileNameGenerationAttachDate #
        (if FileNameGenerationAttachDate \<in> existing ex
         then [Call_SetValue FileNameGenerationAttachDate (PyBool d),
               Print (Set_to FileNameGenerationAttachDate (PyBool d))]
         else [Print (Error_in_setting FileNameGenerationAttachDate (PyBool d))])
      @ Call_Exists FileNameGenerationAttachTime #
        (if FileNameGenerationAttachTime \<in> existing ex
         then [Call_SetValue FileNameGenerationAttachTime (PyBool t),
               Print (Set_to FileNameGenerationAttachTime (PyBool t))]
         else [Print (Error_in_setting FileNameGenerationAttachTime (PyBool t))]),
      Returned ())"
    and frame: "existing ex' = existing ex"
    and vals: "GetValue ex' FileNameGenerationBaseFileName =
        (if FileNameGenerationBaseFileName \<in> existing ex
         then Some (PyStr (GetFileName filename))
         else GetValue ex FileNameGenerationBaseFileName)"
      "GetValue ex' FileNameGenerationAttachIncrement =
        (if FileNameGenerationAttachIncrement \<in> existing ex then Some (PyBool i)
         else GetValue ex FileNameGenerationAttachIncrement)"
      "GetValue ex' FileNameGenerationAttachDate =
        (if FileNameGenerationAttachDate \<in> existing ex then Some (PyBool d)
         else GetValue ex FileNameGenerationAttachDate)"
      "GetValue ex' FileNameGenerationAttachTime =
        (if FileNameGenerationAttachTime \<in> existing ex then Some (PyBool t)
         else GetValue ex FileNameGenerationAttachTime)"
      "\<forall>k. k \<notin> {FileNameGenerationBaseFileName, FileNameGenerationAttachIncrement,
                  FileNameGenerationAttachDate, FileNameGenerationAttachTime} \<longrightarrow>
           GetValue ex' k = GetValue ex k"
    unfolding passed by blast
  show ?thesis
    by (rule exI [of _ dir], rule exI [of _ ex'])
       (intro conjI dir clean writes frame vals omitted)
qed

theorem set_saved_filename_four_writes_witness:
  "experiment' launched = Some pixis
   \<and> (\<exists>ex'. set_saved_filename launched run1_path (Some True) (Some False) (Some False) =
         (launched\<lparr>experiment' := Some ex'\<rparr>,
          [Call_Exists FileNameGenerationBaseFileName,
           Call_SetValue FileNameGenerationBaseFileName (PyStr ''run1.csv''),
           Print (Set_to FileNameGenerationBaseFileName (PyStr ''run1.csv'')),
           Call_Exists FileNameGenerationAttachIncrement,
           Call_SetValue FileNameGenerationAttachIncrement (PyBool True),
           Print (Set_to FileNameGenerationAttachIncrement (PyBool True)),
           Call_Exists FileNameGenerationAttachDate,
           Call_SetValue FileNameGenerationAttachDate (PyBool False),
           Print (Set_to FileNameGenerationAttachDate (PyBool False)),
           Call_Exists FileNameGenerationAttachTime,
           Call_SetValue FileNameGenerationAttachTime (PyBool False),
           Print (Set_to FileNameGenerationAttachTime (PyBool False))],
          Returned ())
       \<and> GetValue ex' FileNameGenerationBaseFileName = Some (PyStr ''run1.csv'')
       \<and> GetValue ex' FileNameGenerationAttachIncrement = Some (PyBool True)
       \<and> GetValue ex' FileNameGenerationAttachDate = Some (PyBool False)
       \<and> GetValue ex' FileNameGenerationAttachTime = Some (PyBool False)
       \<and> GetValue ex' Grating = GetValue pixis Grating)"
proof -
  have held: "experiment' launched = Some pixis"
    by (simp add: launched_def)
  have keys: "FileNameGenerationBaseFileName \<in> existing pixis"
    "FileNameGenerationAttachIncrement \<in> existing pixis"
    "FileNameGenerationAttachDate \<in> existing pixis"
    "FileNameGenerationAttachTime \<in> existing pixis"
    by (simp_all add: pixis_def)
  from set_saved_filename_four_writes [OF held, of run1_path True False False]
  show ?thesis
    using held by (auto simp: keys GetFileName_run1_path)
qed

text \<open>
  C6. \<open>acquire\<close>, on a facade that holds an experiment and for every file name, first
  runs \<open>set_saved_filename\<close> once with that name and the default flags (its events are
  exactly those of one such call: each of its four existence checks occurs once), and
  then calls the acquisition trigger \<open>Acquire\<close> once, as the last event, after the file
  name has been set; then it returns.
\<close>

theorem acquire_sequence:
  assumes "experiment' self = Some ex"
  shows "\<exists>s es.
      set_saved_filename self filename None None None = (s, es, Returned ())
    \<and> acquire self filename = (s, es @ [Call_Acquire], Returned ())
    \<and> Call_Acquire \<notin> set es
    \<and> count_list (es @ [Call_Acquire]) Call_Acquire = 1
    \<and> count_list es (Call_Exists FileNameGenerationBaseFileName) = 1
    \<and> count_list es (Call_Exists FileNameGenerationAttachIncrement) = 1
    \<and> count_list es (Call_Exists FileNameGenerationAttachDate) = 1
    \<and> count_list es (Call_Exists FileNameGenerationAttachTime) = 1
    \<and> set_saved_filename self filename None None None =
        set_saved_filename self filename (Some False) (Some False) (Some False)"
proof -
  from set_saved_filename_held [OF assms, of filename None None None]
  obtain ex' es where run: "set_saved_filename self filename None None None =
      (self\<lparr>experiment' := Some ex'\<rparr>, es, Returned ())"
    and es: "es =
      Call_Exists FileNameGenerationBaseFileName #
        (if FileNameGenerationBaseFileName \<in> existing ex
         then [Call_SetValue FileNameGenerationBaseFileName (PyStr (GetFileName filename)),
               Print (Set_to FileNameGenerationBaseFileName (PyStr (GetFileName filename)))]
         else [Print (Error_in_setting FileNameGenerationBaseFileName
                        (PyStr (GetFileName filename)))])
      @ Call_Exists FileNameGenerationAttachIncrement #
        (if FileNameGenerationAttachIncrement \<in> existing ex
         then [Call_SetValue FileNameGenerationAttachIncrement (PyBool (default False None)),
               Print (Set_to FileNameGenerationAttachIncrement (PyBool (default False None)))]
         else [Print (Error_in_setting FileNameGenerationAttachIncrement
                        (PyBool (default False None)))])
      @ Call_Exists FileNameGenerationAttachDate #
        (if FileNameGenerationAttachDate \<in> existing ex
         then [Call_SetValue FileNameGenerationAttachDate (PyBool (default False None)),
               Print (Set_to FileNameGenerationAttachDate (PyBool (default False None)))]
         else [Print (Error_in_setting FileNameGenerationAttachDate
                        (PyBool (default False None)))])
      @ Call_Exists FileNameGenerationAttachTime #
        (if FileNameGenerationAttachTime \<in> existing ex
         then [Call_SetValue FileNameGenerationAttachTime (PyBool (default False None)),
               Print (Set_to FileNameGenerationAttachTime (PyBool (default False None)))]
         else [Print (Error_in_setting FileNameGenerationAttachTime
                        (PyBool (default False None)))])"
    by blast
  have trigger: "acquire self filename =
      (self\<lparr>experiment' := Some ex'\<rparr>, es @ [Call_Acquire], Returned ())"
    by (simp add: acquire_def run and_then_def)
  have once: "Call_Acquire \<notin> set es"
    "count_list (es @ [Call_Acquire]) Call_Acquire = 1"
    "count_list es (Call_Exists FileNameGenerationBaseFileName) = 1"
    "count_list es (Call_Exists FileNameGenerationAttachIncrement) = 1"
    "count_list es (Call_Exists FileNameGenerationAttachDate) = 1"
    "count_list es (Call_Exists FileNameGenerationAttachTime) = 1"
    by (simp_all add: es)
  have omitted: "set_saved_filename self filename None None None =
        set_saved_filename self filename (Some False) (Some False) (Some False)"
    by (simp add: set_saved_filename_def default_def)
  show ?thesis
    by (rule exI [of _ "self\<lparr>experiment' := Some ex'\<rparr>"], rule exI [of _ es])
       (intro conjI run trigger once omitted)
qed

theorem acquire_sequence_witness:
  "experiment' launched = Some pixis
   \<and> (\<exists>s es. set_saved_filename launched ''run2'' None None None = (s, es, Returned ())
         \<and> acquire launched ''run2'' = (s, es @ [Call_Acquire], Returned ())
         \<and> count_list (es @ [Call_Acquire]) Call_Acquire = 1)"
proof -
  have held: "experiment' launched = Some pixis"
    by (simp add: launched_def)
  from acquire_sequence [OF held, of "''run2''"] held show ?thesis
    by blast
qed

text \<open>
  C4. \<open>set_custom_ROI(0, 0, 512, 512)\<close> without binning arguments builds the region
  with both binnings 512, but then reads \<open>self.Experiment\<close>, a name the facade does not
  have: the call raises \<open>AttributeError\<close>, \<open>SetCustomRegions\<close> is never called and no
  region is returned. The same holds for every choice of arguments: the method never
  returns, calls nothing on the vendor and leaves the facade as it was.
\<close>

theorem set_custom_ROI_raises:
  "RegionOfInterest (Some 0) (Some 0) (Some 512) (Some 512) (Some 512) (Some 512) =
     Inr \<lparr>X = 0, Y = 0, Width = 512, Height = 512, XBinning = 512, YBinning = 512\<rparr>
   \<and> set_custom_ROI self (Some 0) (Some 0) (Some 512) (Some 512) None None =
       (self, [], Raised (AttributeError ''Experiment''))
   \<and> (\<forall>x y w h xb yb region.
         outcome_of (set_custom_ROI self x y w h xb yb) \<noteq> Returned region
       \<and> events_of (set_custom_ROI self x y w h xb yb) = []
       \<and> state_of (set_custom_ROI self x y w h xb yb) = self)"
  by (simp add: set_custom_ROI_def RegionOfInterest_def attribute_names_def
      outcome_of_def events_of_def state_of_def split: sum.splits option.splits)

text \<open>
  C8. \<open>get_full_sensor_size\<close>, on a facade that holds an experiment whose full sensor
  region has the six values x, y, width, height, x-binning and y-binning, returns these
  six values in this order, calls nothing that writes and leaves the facade, its
  experiment included, unchanged.
\<close>

theorem get_full_sensor_size_passthrough:
  assumes "experiment' self = Some ex"
    and "FullSensorRegion ex =
           \<lparr>X = x, Y = y, Width = w, Height = h, XBinning = xb, YBinning = yb\<rparr>"
  shows "get_full_sensor_size self = (self, [], Returned (x, y, w, h, xb, yb))"
  using assms by (simp add: get_full_sensor_size_def)

theorem get_full_sensor_size_passthrough_witness:
  "experiment' launched = Some pixis
   \<and> FullSensorRegion pixis =
       \<lparr>X = 0, Y = 0, Width = 1024, Height = 1024, XBinning = 1, YBinning = 1\<rparr>
   \<and> get_full_sensor_size launched = (launched, [], Returned (0, 0, 1024, 1024, 1, 1))"
proof -
  have held: "experiment' launched = Some pixis"
    by (simp add: launched_def)
  have sensor: "FullSensorRegion pixis =
       \<lparr>X = 0, Y = 0, Width = 1024, Height = 1024, XBinning = 1, YBinning = 1\<rparr>"
    by (simp add: pixis_def pixis_region_def)
  from get_full_sensor_size_passthrough [OF held sensor] held sensor show ?thesis
    by blast
qed

text \<open>
  C9. \<open>save_experiment\<close> changes no attribute of the facade but \<open>experiment_name\<close>.
  Called with a name, it first stores the name in \<open>experiment_name\<close> and then saves
  under it; the name stays, so a later call without a name saves under it again. Called
  without a name, it saves under the stored \<open>experiment_name\<close> and leaves the facade as
  it was.
\<close>

theorem save_experiment_frame:
  "auto (state_of (save_experiment self name)) = auto self
   \<and> experiment' (state_of (save_experiment self name)) = experiment' self
   \<and> ROI (state_of (save_experiment self name)) = ROI self
   \<and> state_of (save_experiment self None) = self
   \<and> state_of (save_experiment self (Some n)) = self\<lparr>experiment_name := Some n\<rparr>
   \<and> (\<forall>ex. experiment' self = Some ex \<longrightarrow>
          save_experiment self None = (self, [Call_SaveAs (experiment_name self)], Returned ())
        \<and> save_experiment self (Some n) =
            (self\<lparr>experiment_name := Some n\<rparr>, [Call_SaveAs (Some n)], Returned ())
        \<and> save_experiment (state_of (save_experiment self (Some n))) None =
            (self\<lparr>experiment_name := Some n\<rparr>, [Call_SaveAs (Some n)], Returned ()))"
  by (cases name; cases "experiment' self") (simp_all add: save_experiment_def state_of_def)

theorem save_experiment_frame_witness:
  "experiment' launched = Some pixis
   \<and> save_experiment launched None = (launched, [Call_SaveAs (experiment_name launched)], Returned ())
   \<and> save_experiment launched (Some ''night'') =
       (launched\<lparr>experiment_name := Some ''night''\<rparr>, [Call_SaveAs (Some ''night'')], Returned ())
   \<and> save_experiment (state_of (save_experiment launched (Some ''night''))) None =
       (launched\<lparr>experiment_name := Some ''night''\<rparr>, [Call_SaveAs (Some ''night'')], Returned ())"
proof -
  have held: "experiment' launched = Some pixis"
    by (simp add: launched_def)
  from save_experiment_frame [of launched None "''night''"] held show ?thesis
    by blast
qed

text \<open>
  C7. \<open>launch_experiment\<close> returns normally whatever the vendor does: no exception
  reaches the caller. When a vendor call raises (the start of the runtime, the read of
  the application's experiment, or the load of the named experiment; also the call of
  \<open>Load\<close> on an experiment that is \<open>None\<close>), the exception is printed as the last
  event, and the facade keeps every assignment made before it, with nothing rolled back:
  nothing set when the start fails, \<open>auto\<close> set when the read fails, \<open>auto\<close> and
  \<open>experiment\<close> set (the experiment as \<open>Load\<close> left it) when the load fails, and
  \<open>experiment_name\<close> as it was in all three. When the named experiment has been loaded,
  \<open>experiment_name\<close> is the name of the loaded experiment and the success message is
  printed.
\<close>

theorem launch_experiment_catches:
  "outcome_of (launch_experiment lf self experiment interface) = Returned ()
   \<and> (\<forall>err. Automation lf (default True interface) = Inl err \<longrightarrow>
         launch_experiment lf self experiment interface =
           (self,
            [Call_Automation (default True interface), Print (Error_text err)],
            Returned ()))
   \<and> (\<forall>a err. Automation lf (default True interface) = Inr a
           \<and> LightFieldApplication_Experiment lf a = Inl err \<longrightarrow>
         launch_experiment lf self experiment interface =
           (self\<lparr>auto := Some a\<rparr>,
            [Call_Automation (default True interface), Print (Error_text err)],
            Returned ()))
   \<and> (\<forall>a name. Automation lf (default True interface) = Inr a
           \<and> LightFieldApplication_Experiment lf a = Inr None
           \<and> experiment = Some name \<longrightarrow>
         launch_experiment lf self experiment interface =
           (self\<lparr>auto := Some a, experiment' := None\<rparr>,
            [Call_Automation (default True interface),
             Print (Error_text (AttributeError ''Load''))],
            Returned ()))
   \<and> (\<forall>a ex name ex' err. Automation lf (default True interface) = Inr a
           \<and> LightFieldApplication_Experiment lf a = Inr (Some ex)
           \<and> experiment = Some name
           \<and> Load lf ex name = (ex', Some err) \<longrightarrow>
         launch_experiment lf self experiment interface =
           (self\<lparr>auto := Some a, experiment' := Some ex'\<rparr>,
            [Call_Automation (default True interface), Call_Load name,
             Print (Error_text err)],
            Returned ()))
   \<and> (\<forall>a ex name ex'. Automation lf (default True interface) = Inr a
           \<and> LightFieldApplication_Experiment lf a = Inr (Some ex)
           \<and> experiment = Some name
           \<and> Load lf ex name = (ex', None) \<longrightarrow>
         launch_experiment lf self experiment interface =
           (self\<lparr>auto := Some a, experiment' := Some ex',
                  experiment_name := Some (Name ex')\<rparr>,
            [Call_Automation (default True interface), Call_Load name,
             Print (Success_set_up (Some (Name ex')))],
            Returned ()))
   \<and> (\<forall>a x. Automation lf (default True interface) = Inr a
           \<and> LightFieldApplication_Experiment lf a = Inr x
           \<and> experiment = None \<longrightarrow>
         launch_experiment lf self experiment interface =
           (self\<lparr>auto := Some a, experiment' := x\<rparr>,
            [Call_Automation (default True interface),
             Print (Success_set_up (experiment_name self))],
            Returned ()))"
  by (simp add: launch_experiment_def launch_body_def Let_def outcome_of_def
      split: sum.splits option.splits prod.splits)

theorem launch_experiment_catches_witness:
  "launch_experiment vendor_down init (Some ''Night'') None =
     (init,
      [Call_Automation True, Print (Error_text (VendorException ''LightField is not installed''))],
      Returned ())
   \<and> launch_experiment vendor_without_presets init (Some ''Night'') (Some False) =
     (init\<lparr>auto := Some (AutomationHandle 0), experiment' := Some pixis\<rparr>,
      [Call_Automation False, Call_Load ''Night'',
       Print (Error_text (VendorException ''no such experiment''))],
      Returned ())
   \<and> launch_experiment vendor_working init (Some ''Night'') None =
     (init\<lparr>auto := Some (AutomationHandle 0),
           experiment' := Some (pixis\<lparr>Name := ''Night''\<rparr>),
           experiment_name := Some ''Night''\<rparr>,
      [Call_Automation True, Call_Load ''Night'', Print (Success_set_up (Some ''Night''))],
      Returned ())
   \<and> launch_experiment vendor_working init None None =
     (init\<lparr>auto := Some (AutomationHandle 0), experiment' := Some pixis\<rparr>,
      [Call_Automation True, Print (Success_set_up (experiment_name init))],
      Returned ())"
proof -
  have down: "Automation vendor_down (default True None) =
      Inl (VendorException ''LightField is not installed'')"
    by (simp add: vendor_down_def)
  have no_preset: "Automation vendor_without_presets (default True (Some False)) =
        Inr (AutomationHandle 0)
      \<and> LightFieldApplication_Experiment vendor_without_presets (AutomationHandle 0) =
        Inr (Some pixis)
      \<and> Some ''Night'' = Some ''Night''
      \<and> Load vendor_without_presets pixis ''Night'' =
        (pixis, Some (VendorException ''no such experiment''))"
    by (simp add: vendor_without_presets_def)
  have working: "Automation vendor_working (default True None) = Inr (AutomationHandle 0)
      \<and> LightFieldApplication_Experiment vendor_working (AutomationHandle 0) =
        Inr (Some pixis)
      \<and> Some ''Night'' = Some ''Night''
      \<and> Load vendor_working pixis ''Night'' = (pixis\<lparr>Name := ''Night''\<rparr>, None)"
    by (simp add: vendor_working_def)
  have unnamed: "Automation vendor_working (default True None) = Inr (AutomationHandle 0)
      \<and> LightFieldApplication_Experiment vendor_working (AutomationHandle 0) =
        Inr (Some pixis)
      \<and> (None :: string option) = None"
    by (simp add: vendor_working_def)
  have flags: "default True None = True" "default True (Some False) = False"
    by (simp_all add: default_def)
  have startup: "launch_experiment vendor_down init (Some ''Night'') None =
     (init,
      [Call_Automation True, Print (Error_text (VendorException ''LightField is not installed''))],
      Returned ())"
    using launch_experiment_catches [of vendor_down init "Some ''Night''" None] down
    by (simp add: flags)
  have load: "launch_experiment vendor_without_presets init (Some ''Night'') (Some False) =
     (init\<lparr>auto := Some (AutomationHandle 0), experiment' := Some pixis\<rparr>,
      [Call_Automation False, Call_Load ''Night'',
       Print (Error_text (VendorException ''no such experiment''))],
      Returned ())"
    using launch_experiment_catches
            [of vendor_without_presets init "Some ''Night''" "Some False"] no_preset
    by (simp add: flags)
  have loaded: "launch_experiment vendor_working init (Some ''Night'') None =
     (init\<lparr>auto := Some (AutomationHandle 0),
           experiment' := Some (pixis\<lparr>Name := ''Night''\<rparr>),
           experiment_name := Some ''Night''\<rparr>,
      [Call_Automation True, Call_Load ''Night'', Print (Success_set_up (Some ''Night''))],
      Returned ())"
    using launch_experiment_catches [of vendor_working init "Some ''Night''" None] working
    by (simp add: flags)
  have last_one: "launch_experiment vendor_working init None None =
     (init\<lparr>auto := Some (AutomationHandle 0), experiment' := Some pixis\<rparr>,
      [Call_Automation True, Print (Success_set_up (experiment_name init))],
      Returned ())"
    using launch_experiment_catches [of vendor_working init None None] unnamed
    by (simp add: flags)
  from startup load loaded last_one show ?thesis
    by (intro conjI)
qed

text \<open>
  C10, as amended. \<open>set_sensor_mode\<close> converts its mode with \<open>float()\<close> and checks no
  range. On a facade whose experiment has the region-selection setting, every mode that
  \<open>float()\<close> converts, inside or outside 1..4, is written as that float through the
  guarded write. A float mode is converted to itself, and an int mode of magnitude below
  \<open>2 ^ 53\<close> to the double with the same value. A mode that \<open>float()\<close> rejects (an int
  too large for a double) makes the call raise the exception of \<open>float()\<close>, before any
  call on the vendor. The omitted mode is \<open>4.0\<close>.
\<close>

theorem set_sensor_mode_forwards:
  assumes "experiment' self = Some ex"
    and "ReadoutControlRegionsOfInterestSelection \<in> existing ex"
  shows "(\<forall>mode d. py_float mode = Inr d \<longrightarrow>
            set_sensor_mode self (Some mode) =
              (self\<lparr>experiment' :=
                  Some (SetValue ex ReadoutControlRegionsOfInterestSelection
                          (PyNum (PFloat d)))\<rparr>,
               [Call_Exists ReadoutControlRegionsOfInterestSelection,
                Call_SetValue ReadoutControlRegionsOfInterestSelection (PyNum (PFloat d)),
                Print (Set_to ReadoutControlRegionsOfInterestSelection (PyNum (PFloat d)))],
               Returned ())
          \<and> GetValue (SetValue ex ReadoutControlRegionsOfInterestSelection
                         (PyNum (PFloat d)))
                ReadoutControlRegionsOfInterestSelection = Some (PyNum (PFloat d)))
       \<and> (\<forall>d. py_float (PFloat d) = Inr d)
       \<and> (\<forall>n. \<bar>n\<bar> < 2 ^ 53 \<longrightarrow> (\<exists>d. py_float (PInt n) = Inr d \<and> float_is_int d n))
       \<and> (\<forall>mode err. py_float mode = Inl err \<longrightarrow>
            set_sensor_mode self (Some mode) = (self, [], Raised err))
       \<and> set_sensor_mode self None = set_sensor_mode self (Some (PFloat (Finite 1 2)))"
proof -
  have forwarded: "set_sensor_mode self (Some mode) =
      set_value self ReadoutControlRegionsOfInterestSelection (PyNum (PFloat d))"
    if "py_float mode = Inr d" for mode d
    using that by (simp add: set_sensor_mode_def default_def)
  have written: "set_value self ReadoutControlRegionsOfInterestSelection (PyNum (PFloat d)) =
      (self\<lparr>experiment' :=
          Some (SetValue ex ReadoutControlRegionsOfInterestSelection (PyNum (PFloat d)))\<rparr>,
       [Call_Exists ReadoutControlRegionsOfInterestSelection,
        Call_SetValue ReadoutControlRegionsOfInterestSelection (PyNum (PFloat d)),
        Print (Set_to ReadoutControlRegionsOfInterestSelection (PyNum (PFloat d)))],
       Returned ())" for d
    using assms by (rule set_value_present)
  have stored: "GetValue (SetValue ex ReadoutControlRegionsOfInterestSelection
                   (PyNum (PFloat d)))
           ReadoutControlRegionsOfInterestSelection = Some (PyNum (PFloat d))" for d
    by simp
  have exact: "\<exists>d. py_float (PInt n) = Inr d \<and> float_is_int d n" if "\<bar>n\<bar> < 2 ^ 53" for n
    using float_of_int_exact [OF that] by simp
  have rejected: "set_sensor_mode self (Some mode) = (self, [], Raised err)"
    if "py_float mode = Inl err" for mode err
    using that by (simp add: set_sensor_mode_def default_def)
  have omitted: "set_sensor_mode self None = set_sensor_mode self (Some (PFloat (Finite 1 2)))"
    by (simp add: set_sensor_mode_def default_def)
  from forwarded written stored exact rejected omitted show ?thesis
    by simp
qed

theorem set_sensor_mode_forwards_witness:
  "experiment' launched = Some pixis
   \<and> ReadoutControlRegionsOfInterestSelection \<in> existing pixis
   \<and> py_float (PInt 7) = Inr (Finite 7 0)
   \<and> set_sensor_mode launched (Some (PInt 7)) =
       (launched\<lparr>experiment' :=
           Some (SetValue pixis ReadoutControlRegionsOfInterestSelection
                   (PyNum (PFloat (Finite 7 0))))\<rparr>,
        [Call_Exists ReadoutControlRegionsOfInterestSelection,
         Call_SetValue ReadoutControlRegionsOfInterestSelection (PyNum (PFloat (Finite 7 0))),
         Print (Set_to ReadoutControlRegionsOfInterestSelection
                  (PyNum (PFloat (Finite 7 0))))],
        Returned ())
   \<and> float_is_int (Finite 7 0) 7
   \<and> py_float (PInt (2 ^ 1024)) = Inl (OverflowError ''int too large to convert to float'')
   \<and> set_sensor_mode launched (Some (PInt (2 ^ 1024))) =
       (launched, [], Raised (OverflowError ''int too large to convert to float''))"
proof -
  have held: "experiment' launched = Some pixis"
    by (simp add: launched_def)
  have key: "ReadoutControlRegionsOfInterestSelection \<in> existing pixis"
    by (simp add: pixis_def)
  have seven: "py_float (PInt 7) = Inr (Finite 7 0)"
    by (simp add: float_of_int_7)
  have same: "float_is_int (Finite 7 0) 7"
    by simp
  have huge: "py_float (PInt (2 ^ 1024)) =
      Inl (OverflowError ''int too large to convert to float'')"
    using float_of_int_overflow by simp
  from set_sensor_mode_forwards [OF held key] held key seven same huge show ?thesis
    by blast
qed

text \<open>
  The claim as stated fails for two int modes: \<open>2 ^ 1024\<close> is rejected by the facade's
  \<open>float()\<close> with \<open>OverflowError\<close> and nothing is forwarded, and \<open>2 ^ 53 + 1\<close> is
  forwarded as the double \<open>2 ^ 53\<close>, which is not the value passed.
\<close>

theorem set_sensor_mode_counterexample:
  "experiment' launched = Some pixis
   \<and> ReadoutControlRegionsOfInterestSelection \<in> existing pixis
   \<and> set_sensor_mode launched (Some (PInt (2 ^ 1024))) =
       (launched, [], Raised (OverflowError ''int too large to convert to float''))
   \<and> set_sensor_mode launched (Some (PInt (2 ^ 53 + 1))) =
       (launched\<lparr>experiment' :=
           Some (SetValue pixis ReadoutControlRegionsOfInterestSelection
                   (PyNum (PFloat (Finite 1 53))))\<rparr>,
        [Call_Exists ReadoutControlRegionsOfInterestSelection,
         Call_SetValue ReadoutControlRegionsOfInterestSelection (PyNum (PFloat (Finite 1 53))),
         Print (Set_to ReadoutControlRegionsOfInterestSelection
                  (PyNum (PFloat (Finite 1 53))))],
        Returned ())
   \<and> \<not> float_is_int (Finite 1 53) (2 ^ 53 + 1)"
proof -
  have held: "experiment' launched = Some pixis"
    by (simp add: launched_def)
  have key: "ReadoutControlRegionsOfInterestSelection \<in> existing pixis"
    by (simp add: pixis_def)
  have huge: "set_sensor_mode launched (Some (PInt (2 ^ 1024))) =
       (launched, [], Raised (OverflowError ''int too large to convert to float''))"
    unfolding set_sensor_mode_def default_def
    using float_of_int_overflow by simp
  have "set_sensor_mode launched (Some (PInt (2 ^ 53 + 1))) =
      set_value launched ReadoutControlRegionsOfInterestSelection
        (PyNum (PFloat (Finite 1 53)))"
    unfolding set_sensor_mode_def default_def
    using float_of_int_rounds by simp
  then have rounded: "set_sensor_mode launched (Some (PInt (2 ^ 53 + 1))) =
       (launched\<lparr>experiment' :=
           Some (SetValue pixis ReadoutControlRegionsOfInterestSelection
                   (PyNum (PFloat (Finite 1 53))))\<rparr>,
        [Call_Exists ReadoutControlRegionsOfInterestSelection,
         Call_SetValue ReadoutControlRegionsOfInterestSelection (PyNum (PFloat (Finite 1 53))),
         Print (Set_to ReadoutControlRegionsOfInterestSelection
                  (PyNum (PFloat (Finite 1 53))))],
        Returned ())"
    by (simp only: set_value_present [OF held key])
  have changed: "\<not> float_is_int (Finite 1 53) (2 ^ 53 + 1)"
    by simp
  from held key huge rounded changed show ?thesis
    by (intro conjI)
qed

end
